theory Spec2Isabelle
  imports Complex_Main "HOL-Library.AList"
begin

section \<open>The data model of the asset tracker\<close>

text \<open>
  The tracker of \<^verbatim>\<open>src/main.py\<close> is one class, \<^verbatim>\<open>SmartAssetTracker\<close>, with four
  methods: \<^verbatim>\<open>fetch_asset_data\<close> (the Fetcher), \<^verbatim>\<open>calculate_performance\<close> (the Analyzer),
  \<^verbatim>\<open>display_performance\<close> (the Reporter) and \<^verbatim>\<open>track_assets\<close> (the driver loop).

  Modelling decisions.
  \<^item> A Python \<^verbatim>\<open>dict\<close> that the code iterates over is an association list with the
    insertion order of its keys; \<^verbatim>\<open>d[k] = v\<close> is \<^const>\<open>AList.update\<close>, which replaces the
    value of a key that is there and appends a new key at the end, as Python does.
    A dict has no key twice: \<open>distinct (map fst d)\<close>.
  \<^item> The row \<^verbatim>\<open>hist.iloc[-1].to_dict()\<close> is only ever read with \<^verbatim>\<open>.get\<close>: it is a map from
    column names to numbers, and \<^verbatim>\<open>stats.get('Open')\<close> is the map applied to \<open>''Open''\<close>,
    with \<open>None\<close> for Python's \<^verbatim>\<open>None\<close>.
  \<^item> Prices are Python floats. Their type \<open>'f\<close> and their arithmetic are parameters
    (the record \<open>arith\<close>): the model fixes which operation the code applies to which
    operands, and when, and leaves to the parameter what binary64 makes of it
    (rounding, infinities, NaN, the sign of zero).
  \<^item> \<^verbatim>\<open>logging\<close> appends records to a log that is part of the state. A message is the
    list of the pieces of its f-string: literal text, and numbers printed with
    \<^verbatim>\<open>:.2f\<close>.
  \<^item> The market-data provider and \<^verbatim>\<open>time.sleep\<close> are parameters. They act on an
    external world of any type \<open>'w\<close>, so that two requests for the same symbol may get
    different answers.
\<close>

type_synonym 'f stats = "string \<rightharpoonup> 'f"

text \<open>The dict \<^verbatim>\<open>{'Open Price': .., 'Close Price': .., 'Change (%)': ..}\<close>.\<close>

record 'f performance =
  Open_Price :: 'f
  Close_Price :: 'f
  Change :: 'f

datatype levelname = INFO | WARNING | ERROR

datatype 'f fragment = Str string | Fix2 'f

type_synonym 'f log_record = "levelname \<times> 'f fragment list"

text \<open>
  What a call can raise. \<open>Exception msg\<close> is an instance of \<^verbatim>\<open>Exception\<close> or of one of
  its subclasses whose \<^verbatim>\<open>str\<close> is \<open>msg\<close>; \<open>KeyboardInterrupt\<close> is the interrupt of the
  user; \<open>BaseException msg\<close> is any other exception outside \<^verbatim>\<open>Exception\<close> that ends the
  interpreter with a traceback. A clause \<^verbatim>\<open>except Exception\<close> catches the first kind only.
\<close>

datatype exn = KeyboardInterrupt | Exception string | BaseException string

text \<open>
  The answer to \<^verbatim>\<open>yf.Ticker(symbol).history(period="1d")\<close>: a frame, as the list of its
  rows with the latest one last (\<^verbatim>\<open>hist.empty\<close> is \<open>hist = []\<close>), or an exception.
\<close>

datatype 'f response = Returned "'f stats list" | Raised exn

record ('f, 'w) env =
  history :: "string \<Rightarrow> 'w \<Rightarrow> 'f response \<times> 'w"
  sleep :: "nat \<Rightarrow> 'w \<Rightarrow> exn option \<times> 'w"

text \<open>
  The objects the methods can reach: \<^verbatim>\<open>self.symbols\<close>; the dict \<^verbatim>\<open>data\<close> that
  \<^verbatim>\<open>fetch_asset_data\<close> builds and \<^verbatim>\<open>track_assets\<close> hands to \<^verbatim>\<open>calculate_performance\<close>
  (by reference, so a callee could change it); the log; the world outside.
\<close>

record ('f, 'w) state =
  symbols :: "string list"
  data :: "(string \<times> 'f stats) list"
  logged :: "'f log_record list"
  world :: 'w

definition logging :: "levelname \<Rightarrow> 'f fragment list \<Rightarrow> ('f, 'w) state \<Rightarrow> ('f, 'w) state" where
  "logging lvl msg st = st\<lparr>logged := logged st @ [(lvl, msg)]\<rparr>"

section \<open>The Fetcher\<close>

text \<open>
  The loop of \<^verbatim>\<open>fetch_asset_data\<close> over \<^verbatim>\<open>self.symbols\<close>. An exception that
  \<^verbatim>\<open>except Exception\<close> does not catch leaves the loop and the method.
\<close>

fun fetch_loop :: "('f, 'w) env \<Rightarrow> string list \<Rightarrow> ('f, 'w) state \<Rightarrow> exn option \<times> ('f, 'w) state" where
  "fetch_loop env [] st = (None, st)"
| "fetch_loop env (symbol # rest) st =
    (case history env symbol (world st) of
      (Returned hist, w) \<Rightarrow>
        if hist \<noteq> [] then
          fetch_loop env rest (st\<lparr>data := AList.update symbol (last hist) (data st), world := w\<rparr>)
        else
          fetch_loop env rest
            (logging WARNING [Str (''No data fetched for '' @ symbol @ ''.'')] (st\<lparr>world := w\<rparr>))
    | (Raised (Exception e), w) \<Rightarrow>
        fetch_loop env rest
          (logging ERROR [Str (''Error fetching data for '' @ symbol @ '': '' @ e)] (st\<lparr>world := w\<rparr>))
    | (Raised e, w) \<Rightarrow> (Some e, st\<lparr>world := w\<rparr>))"

definition fetch_asset_data :: "('f, 'w) env \<Rightarrow> ('f, 'w) state \<Rightarrow> exn option \<times> ('f, 'w) state" where
  "fetch_asset_data env st =
     fetch_loop env (symbols st) (logging INFO [Str ''Fetching asset data...''] (st\<lparr>data := []\<rparr>))"

section \<open>The Analyzer and the Reporter\<close>

text \<open>
  The arithmetic of Python's floats, as far as the code uses it: the truth value of a
  float (\<^verbatim>\<open>x != 0.0\<close>: a zero of either sign is false, every other float, NaN too, is
  true), \<^verbatim>\<open>a - b\<close>, the quotient \<^verbatim>\<open>a / b\<close> for a divisor that is not zero, \<^verbatim>\<open>a * b\<close>, and
  the float an int is converted to when it meets a float.
\<close>

record 'f arith =
  float_bool :: "'f \<Rightarrow> bool"
  float_sub :: "'f \<Rightarrow> 'f \<Rightarrow> 'f"
  float_truediv :: "'f \<Rightarrow> 'f \<Rightarrow> 'f"
  float_mul :: "'f \<Rightarrow> 'f \<Rightarrow> 'f"
  float_of_int :: "int \<Rightarrow> 'f"

text \<open>
  Python's \<^verbatim>\<open>/\<close> on floats raises \<^verbatim>\<open>ZeroDivisionError\<close>, a subclass of \<^verbatim>\<open>Exception\<close>, when
  the divisor is zero (\<^verbatim>\<open>b == 0.0\<close>, that is, when \<^verbatim>\<open>b\<close> is false).
\<close>

definition py_truediv :: "'f arith \<Rightarrow> 'f \<Rightarrow> 'f \<Rightarrow> string + 'f" where
  "py_truediv ar a b =
     (if float_bool ar b then Inr (float_truediv ar a b) else Inl ''float division by zero'')"

text \<open>The truth value of \<^verbatim>\<open>stats.get(..)\<close>: \<^verbatim>\<open>None\<close> and zero are false.\<close>

definition truthy :: "'f arith \<Rightarrow> 'f option \<Rightarrow> bool" where
  "truthy ar v = (case v of None \<Rightarrow> False | Some x \<Rightarrow> float_bool ar x)"

definition invalid_data :: "string \<Rightarrow> ('f, 'w) state \<Rightarrow> ('f, 'w) state" where
  "invalid_data symbol st =
     logging WARNING
       [Str (''Invalid data for '' @ symbol @ ''. Open or Close price is missing.'')] st"

text \<open>
  The body of the loop of \<^verbatim>\<open>calculate_performance\<close>, on one item of \<^verbatim>\<open>data.items()\<close>,
  the dict \<^verbatim>\<open>performance_summary\<close> and the state.
\<close>

definition calculate_step ::
  "'f arith \<Rightarrow> string \<times> 'f stats \<Rightarrow> (string \<times> 'f performance) list \<times> ('f, 'w) state \<Rightarrow>
     (string \<times> 'f performance) list \<times> ('f, 'w) state" where
  "calculate_step ar item acc =
     (case item of (symbol, stats) \<Rightarrow>
      case acc of (performance_summary, st) \<Rightarrow>
       (case (stats ''Open'', stats ''Close'') of
         (Some open_price, Some close_price) \<Rightarrow>
           if float_bool ar open_price \<and> float_bool ar close_price then
             (case py_truediv ar (float_sub ar close_price open_price) open_price of
               Inr q \<Rightarrow>
                 (AList.update symbol
                    \<lparr>Open_Price = open_price, Close_Price = close_price,
                      Change = float_mul ar q (float_of_int ar 100)\<rparr>
                    performance_summary, st)
             | Inl e \<Rightarrow>
                 (performance_summary,
                  logging ERROR
                    [Str (''Error calculating performance for '' @ symbol @ '': '' @ e)] st))
           else (performance_summary, invalid_data symbol st)
       | _ \<Rightarrow> (performance_summary, invalid_data symbol st)))"

text \<open>The five lines \<^verbatim>\<open>display_performance\<close> logs for one symbol.\<close>

definition display_block :: "string \<times> 'f performance \<Rightarrow> ('f, 'w) state \<Rightarrow> ('f, 'w) state" where
  "display_block item st =
     (case item of (symbol, performance) \<Rightarrow>
       let st1 = logging INFO [Str (''Symbol: '' @ symbol)] st;
           st2 = logging INFO [Str ''  Open Price: '', Fix2 (Open_Price performance)] st1;
           st3 = logging INFO [Str ''  Close Price: '', Fix2 (Close_Price performance)] st2;
           st4 = logging INFO [Str ''  Change (%): '', Fix2 (Change performance)] st3
       in logging INFO [Str (replicate 40 CHR ''-'')] st4)"

definition display_performance :: "(string \<times> 'f performance) list \<Rightarrow> ('f, 'w) state \<Rightarrow> ('f, 'w) state" where
  "display_performance performance_summary st =
     (if performance_summary = [] then logging INFO [Str ''No performance data to display.''] st
      else fold display_block performance_summary
             (logging INFO [Str ''Displaying performance summary:''] st))"

text \<open>
  Lines 62 to 76 of \<^verbatim>\<open>calculate_performance\<close>: the summary it builds, and the state after
  the loop.
\<close>

definition calculate_loop ::
  "'f arith \<Rightarrow> ('f, 'w) state \<Rightarrow> (string \<times> 'f performance) list \<times> ('f, 'w) state" where
  "calculate_loop ar st =
     fold (calculate_step ar) (data st) ([], logging INFO [Str ''Calculating asset performance...''] st)"

definition calculate_performance :: "'f arith \<Rightarrow> ('f, 'w) state \<Rightarrow> ('f, 'w) state" where
  "calculate_performance ar st =
     (if data st = [] then logging WARNING [Str ''No data to calculate performance.''] st
      else case calculate_loop ar st of
             (performance_summary, st') \<Rightarrow> display_performance performance_summary st')"

section \<open>The driver loop\<close>

text \<open>One pass through the body of \<^verbatim>\<open>while True\<close>, up to the exception that leaves it.\<close>

definition tick :: "'f arith \<Rightarrow> ('f, 'w) env \<Rightarrow> ('f, 'w) state \<Rightarrow> exn option \<times> ('f, 'w) state" where
  "tick ar env st =
     (case fetch_asset_data env st of
       (Some e, st1) \<Rightarrow> (Some e, st1)
     | (None, st1) \<Rightarrow>
         let st2 = calculate_performance ar st1;
             st3 = logging INFO [Str ''Waiting for the next update cycle...''] st2
         in case sleep env 60 (world st3) of (r, w) \<Rightarrow> (r, st3\<lparr>world := w\<rparr>))"

text \<open>
  \<^verbatim>\<open>while True\<close> has no exit but an exception: the loop returns the exception that left
  it and the state there, and \<open>None\<close> when it runs forever.
\<close>

partial_function (option) while_true ::
  "'f arith \<Rightarrow> ('f, 'w) env \<Rightarrow> ('f, 'w) state \<Rightarrow> (exn \<times> ('f, 'w) state) option" where
  "while_true ar env st =
     (case tick ar env st of
       (Some e, st') \<Rightarrow> Some (e, st')
     | (None, st') \<Rightarrow> while_true ar env st')"

declare while_true.simps [code]

text \<open>
  \<^verbatim>\<open>track_assets\<close>: the two handlers return normally (\<open>None\<close>); any other exception goes
  on to the caller.
\<close>

definition track_assets ::
  "'f arith \<Rightarrow> ('f, 'w) env \<Rightarrow> ('f, 'w) state \<Rightarrow> (exn option \<times> ('f, 'w) state) option" where
  "track_assets ar env st =
     (case while_true ar env (logging INFO [Str ''Starting asset tracking...''] st) of
       None \<Rightarrow> None
     | Some (KeyboardInterrupt, st') \<Rightarrow>
         Some (None, logging INFO [Str ''Tracking stopped by user.''] st')
     | Some (Exception e, st') \<Rightarrow>
         Some (None, logging ERROR [Str (''An unexpected error occurred: '' @ e)] st')
     | Some (e, st') \<Rightarrow> Some (Some e, st'))"

text \<open>
  The exit status of the interpreter after the last statement of the script: 0 when it
  returned, 1 (with a traceback) when an exception left it.
\<close>

definition exit_status :: "exn option \<Rightarrow> int" where
  "exit_status r = (case r of None \<Rightarrow> 0 | Some e \<Rightarrow> 1)"

text \<open>The script: a tracker for three symbols, then \<^verbatim>\<open>track_assets\<close>.\<close>

definition main :: "'f arith \<Rightarrow> ('f, 'w) env \<Rightarrow> 'w \<Rightarrow> (int \<times> ('f, 'w) state) option" where
  "main ar env w =
     (case track_assets ar env
             \<lparr>symbols = [''AAPL'', ''TSLA'', ''GOOGL''], data = [], logged = [], world = w\<rparr> of
       None \<Rightarrow> None
     | Some (r, st) \<Rightarrow> Some (exit_status r, st))"

section \<open>Notions used to state the properties\<close>







text \<open>
  The state after \<open>n\<close> passes through the body of \<^verbatim>\<open>while True\<close>, when none of them
  raised.
\<close>

fun run_ticks ::
  "nat \<Rightarrow> 'f arith \<Rightarrow> ('f, 'w) env \<Rightarrow> ('f, 'w) state \<Rightarrow> ('f, 'w) state option" where
  "run_ticks 0 ar env st = Some st"
| "run_ticks (Suc n) ar env st =
    (case tick ar env st of (None, st') \<Rightarrow> run_ticks n ar env st' | (Some e, st') \<Rightarrow> None)"

section \<open>Concrete inputs\<close>

text \<open>
  An arithmetic to run the model with: the real numbers, with no rounding. It is not
  binary64, whose results differ from it wherever binary64 rounds.
\<close>

definition exact :: "real arith" where
  "exact =
     \<lparr>float_bool = (\<lambda>x. x \<noteq> 0), float_sub = (\<lambda>a b. a - b), float_truediv = (\<lambda>a b. a / b),
      float_mul = (\<lambda>a b. a * b), float_of_int = of_int\<rparr>"

text \<open>
  A second arithmetic: every result is rounded to the nearest real with 53 significant
  bits, ties to even, as binary64 rounds (with its spacing of \<open>2 powi -1074\<close> below
  \<open>2 powi -1022\<close>). It is the arithmetic of Python's floats on the finite doubles, as long
  as no result exceeds the largest double; infinities, NaN and the sign of zero are not
  among its values.
\<close>

function halvings :: "real \<Rightarrow> nat" where
  "halvings x = (if 2 \<le> x then Suc (halvings (x / 2)) else 0)"
  by pat_completeness auto
termination
proof (relation "measure (\<lambda>x. nat \<lfloor>x\<rfloor>)")
  show "wf (measure (\<lambda>x::real. nat \<lfloor>x\<rfloor>))" by simp
next
  fix x :: real
  assume "2 \<le> x"
  then have "\<lfloor>x / 2\<rfloor> < \<lfloor>x\<rfloor>" and "0 < \<lfloor>x\<rfloor>" by linarith+
  then show "(x / 2, x) \<in> measure (\<lambda>x. nat \<lfloor>x\<rfloor>)" by simp
qed

function doublings :: "real \<Rightarrow> nat" where
  "doublings x = (if 0 < x \<and> x < 1 then Suc (doublings (x * 2)) else 0)"
  by pat_completeness auto
termination
proof (relation "measure (\<lambda>x. nat \<lfloor>1 / x\<rfloor>)")
  show "wf (measure (\<lambda>x::real. nat \<lfloor>1 / x\<rfloor>))" by simp
next
  fix x :: real
  assume a: "0 < x \<and> x < 1"
  define y where "y = 1 / x"
  from a have y: "1 < y" by (simp add: y_def)
  have less: "\<lfloor>y / 2\<rfloor> < \<lfloor>y\<rfloor>"
  proof (cases "2 \<le> y")
    case True
    then show ?thesis by linarith
  next
    case False
    with y have "\<lfloor>y / 2\<rfloor> < 1" and "1 \<le> \<lfloor>y\<rfloor>"
      by (simp_all add: floor_less_iff le_floor_iff)
    then show ?thesis by linarith
  qed
  have pos: "0 < \<lfloor>y\<rfloor>" using y by (simp add: le_floor_iff)
  have half: "1 / (x * 2) = y / 2" by (simp add: y_def)
  from less pos show "(x * 2, x) \<in> measure (\<lambda>x. nat \<lfloor>1 / x\<rfloor>)"
    unfolding in_measure half y_def [symmetric] by linarith
qed

declare halvings.simps [simp del] doublings.simps [simp del]

text \<open>The exponent \<open>e\<close> of a positive real: \<open>2 powi e \<le> x < 2 powi (e + 1)\<close>.\<close>

definition ilog2 :: "real \<Rightarrow> int" where
  "ilog2 x = (if 1 \<le> x then int (halvings x) else - int (doublings x))"

definition round_half_even :: "real \<Rightarrow> int" where
  "round_half_even x =
     (let n = \<lfloor>x\<rfloor>; d = x - of_int n
      in if d < 1 / 2 then n else if 1 / 2 < d then n + 1 else if even n then n else n + 1)"

definition nearest53 :: "real \<Rightarrow> real" where
  "nearest53 x =
     (if x = 0 then 0
      else let k = max (ilog2 \<bar>x\<bar>) (- 1022) - 52
           in of_int (round_half_even (x / 2 powi k)) * 2 powi k)"

definition rounded :: "real arith" where
  "rounded =
     \<lparr>float_bool = (\<lambda>x. x \<noteq> 0),
      float_sub = (\<lambda>a b. nearest53 (a - b)),
      float_truediv = (\<lambda>a b. nearest53 (a / b)),
      float_mul = (\<lambda>a b. nearest53 (a * b)),
      float_of_int = (\<lambda>n. nearest53 (of_int n))\<rparr>"

text \<open>Scenario 1 of the specification: open 150, close 153.\<close>

definition scenario1 :: "(real, unit) state" where
  "scenario1 =
     \<lparr>symbols = [''AAPL''],
      data = [(''AAPL'', [''Open'' \<mapsto> 150, ''Close'' \<mapsto> 153])],
      logged = [], world = ()\<rparr>"

text \<open>A record whose change is not a double: open 3, close 4.\<close>

definition one_third :: "(real, unit) state" where
  "one_third =
     \<lparr>symbols = [''AAPL''],
      data = [(''AAPL'', [''Open'' \<mapsto> 3, ''Close'' \<mapsto> 4])],
      logged = [], world = ()\<rparr>"

text \<open>A record whose close is zero while its open is not.\<close>

definition zero_close :: "(real, unit) state" where
  "zero_close =
     \<lparr>symbols = [''AAPL''],
      data = [(''AAPL'', [''Open'' \<mapsto> 150, ''Close'' \<mapsto> 0])],
      logged = [], world = ()\<rparr>"

text \<open>
  A fetched mapping with one good record, a zero open (scenario 2), a missing close
  and a zero close.
\<close>

definition mixed :: "(real, unit) state" where
  "mixed =
     \<lparr>symbols = [''AAPL'', ''TSLA'', ''GOOGL'', ''MSFT''],
      data = [(''AAPL'', [''Open'' \<mapsto> 150, ''Close'' \<mapsto> 153]),
              (''TSLA'', [''Open'' \<mapsto> 0, ''Close'' \<mapsto> 200]),
              (''GOOGL'', [''Open'' \<mapsto> 100]),
              (''MSFT'', [''Open'' \<mapsto> 150, ''Close'' \<mapsto> 0])],
      logged = [], world = ()\<rparr>"

text \<open>Scenario 3: the fetch brought nothing.\<close>

definition empty_fetch :: "(real, unit) state" where
  "empty_fetch = \<lparr>symbols = [''AAPL''], data = [], logged = [], world = ()\<rparr>"

text \<open>
  A provider in the manner of scenario 4: two rows for AAPL, an empty frame for TSLA,
  an error for every other symbol. The world counts the requests, and the sleep after
  the sixth request is interrupted by the user.
\<close>

definition provider :: "(real, nat) env" where
  "provider =
     \<lparr>history = (\<lambda>symbol w.
        (if symbol = ''AAPL''
         then Returned [[''Open'' \<mapsto> 149, ''Close'' \<mapsto> 151], [''Open'' \<mapsto> 150, ''Close'' \<mapsto> 153]]
         else if symbol = ''TSLA'' then Returned []
         else Raised (Exception ''no route to host''), Suc w)),
      sleep = (\<lambda>seconds w. (if w < 6 then None else Some KeyboardInterrupt, w))\<rparr>"

definition tracker :: "(real, nat) state" where
  "tracker = \<lparr>symbols = [''AAPL'', ''TSLA'', ''GOOGL''], data = [], logged = [], world = 0\<rparr>"

text \<open>A provider with nothing to deliver, and a sleep that raises an \<^verbatim>\<open>Exception\<close>.\<close>

definition failing_sleep :: "(real, unit) env" where
  "failing_sleep =
     \<lparr>history = (\<lambda>symbol w. (Returned [], w)),
      sleep = (\<lambda>seconds w. (Some (Exception ''boom''), w))\<rparr>"
section \<open>The loop of the Analyzer\<close>

lemma truthy_Some: "truthy ar v \<longleftrightarrow> (\<exists>x. v = Some x \<and> float_bool ar x)"
  by (cases v) (simp_all add: truthy_def)

lemma calculate_step_valid:
  assumes "stats ''Open'' = Some p" and "stats ''Close'' = Some c" and "float_bool ar p" and "float_bool ar c"
  shows "calculate_step ar (s, stats) (sm, st) =
     (AList.update s \<lparr>Open_Price = p, Close_Price = c, 
            Change = float_mul ar (float_truediv ar (float_sub ar c p) p) (float_of_int ar 100)\<rparr> sm, st)"
  using assms by (simp add: calculate_step_def py_truediv_def)

lemma calculate_step_skip:
  assumes "\<not> (truthy ar (stats ''Open'') \<and> truthy ar (stats ''Close''))"
  shows "calculate_step ar (s, stats) (sm, st) = (sm, invalid_data s st)"
  using assms by (auto simp: calculate_step_def truthy_def split: option.splits)

lemma fst_calculate_step:
  "fst (calculate_step ar (s, stats) (sm, st)) =
     (case (stats ''Open'', stats ''Close'') of
        (Some p, Some c) \<Rightarrow>
          if float_bool ar p \<and> float_bool ar c
          then AList.update s \<lparr>Open_Price = p, Close_Price = c, 
            Change = float_mul ar (float_truediv ar (float_sub ar c p) p) (float_of_int ar 100)\<rparr> sm
          else sm
      | _ \<Rightarrow> sm)"
  by (simp add: calculate_step_def py_truediv_def split: option.splits)

lemma snd_calculate_step:
  "snd (calculate_step ar (s, stats) (sm, st)) =
     (if truthy ar (stats ''Open'') \<and> truthy ar (stats ''Close'') then st else invalid_data s st)"
  by (simp add: calculate_step_def py_truediv_def truthy_def split: option.splits)

lemma fold_calculate_step_Cons:
  "fold (calculate_step ar) ((s, stats) # items) (sm, st) =
     fold (calculate_step ar) items
       (fst (calculate_step ar (s, stats) (sm, st)), snd (calculate_step ar (s, stats) (sm, st)))"
  by simp

lemma snd_fold_calculate_step:
  "snd (fold (calculate_step ar) items (sm, st)) =
     st\<lparr>logged := logged st @
        [(WARNING, [Str (''Invalid data for '' @ fst item @ ''. Open or Close price is missing.'')]).
           item \<leftarrow> items, \<not> (truthy ar (snd item ''Open'') \<and> truthy ar (snd item ''Close''))]\<rparr>"
proof (induction items arbitrary: sm st)
  case Nil
  show ?case by simp
next
  case (Cons item items)
  obtain s stats where item: "item = (s, stats)" by (cases item)
  show ?case
    unfolding item fold_calculate_step_Cons Cons.IH snd_calculate_step
    by (simp add: invalid_data_def logging_def)
qed

lemma fst_fold_calculate_step:
  "fst (fold (calculate_step ar) items (sm, st)) = fst (fold (calculate_step ar) items (sm, st'))"
proof (induction items arbitrary: sm st st')
  case Nil
  show ?case by simp
next
  case (Cons item items)
  obtain s stats where item: "item = (s, stats)" by (cases item)
  have same: "fst (calculate_step ar (s, stats) (sm, st)) = fst (calculate_step ar (s, stats) (sm, st'))"
    by (simp only: fst_calculate_step)
  show ?case
    unfolding item fold_calculate_step_Cons same
    by (rule Cons.IH)
qed

lemma keys_fold_calculate_step:
  "fst ` set (fst (fold (calculate_step ar) items (sm, st))) =
     fst ` set sm \<union>
     {s. \<exists>stats. (s, stats) \<in> set items \<and> truthy ar (stats ''Open'') \<and> truthy ar (stats ''Close'')}"
proof (induction items arbitrary: sm st)
  case Nil
  show ?case by simp
next
  case (Cons item items)
  obtain s stats where item: "item = (s, stats)" by (cases item)
  have keys: "fst ` set (fst (calculate_step ar (s, stats) (sm, st))) =
     (if truthy ar (stats ''Open'') \<and> truthy ar (stats ''Close'') then insert s (fst ` set sm)
      else fst ` set sm)"
    by (auto simp: fst_calculate_step truthy_Some AList.dom_update split: option.splits)
  show ?case
    unfolding item fold_calculate_step_Cons Cons.IH keys
    by auto
qed

lemma lookup_fold_calculate_step_other:
  "s \<notin> fst ` set items \<Longrightarrow>
     map_of (fst (fold (calculate_step ar) items (sm, st))) s = map_of sm s"
proof (induction items arbitrary: sm st)
  case Nil
  show ?case by simp
next
  case (Cons item items)
  obtain k stats where item: "item = (k, stats)" by (cases item)
  from Cons.prems have ks: "k \<noteq> s" and rest: "s \<notin> fst ` set items"
    by (auto simp: item)
  have one: "map_of (fst (calculate_step ar (k, stats) (sm, st))) s = map_of sm s"
    using ks by (simp add: fst_calculate_step AList.update_conv' split: option.splits)
  show ?case
    unfolding item fold_calculate_step_Cons Cons.IH [OF rest] one ..
qed

lemma lookup_fold_calculate_step:
  assumes "distinct (map fst items)" and "(s, stats) \<in> set items"
  shows "map_of (fst (fold (calculate_step ar) items (sm, st))) s =
     (case (stats ''Open'', stats ''Close'') of
        (Some p, Some c) \<Rightarrow>
          if float_bool ar p \<and> float_bool ar c
          then Some \<lparr>Open_Price = p, Close_Price = c, 
            Change = float_mul ar (float_truediv ar (float_sub ar c p) p) (float_of_int ar 100)\<rparr>
          else map_of sm s
      | _ \<Rightarrow> map_of sm s)"
  using assms
proof (induction items arbitrary: sm st)
  case Nil
  then show ?case by simp
next
  case (Cons item items)
  obtain k v where item: "item = (k, v)" by (cases item)
  from Cons.prems have dist: "distinct (map fst items)" and fresh: "k \<notin> fst ` set items"
    by (simp_all add: item)
  show ?case
  proof (cases "(s, stats) \<in> set items")
    case True
    then have "k \<noteq> s" using fresh by force
    then have one: "map_of (fst (calculate_step ar (k, v) (sm, st))) s = map_of sm s"
      by (simp add: fst_calculate_step AList.update_conv' split: option.splits)
    show ?thesis
      unfolding item fold_calculate_step_Cons Cons.IH [OF dist True] one ..
  next
    case False
    with Cons.prems have here: "k = s" "v = stats" by (simp_all add: item)
    have rest: "s \<notin> fst ` set items" using fresh here by simp
    show ?thesis
      unfolding item here fold_calculate_step_Cons lookup_fold_calculate_step_other [OF rest]
      by (simp add: fst_calculate_step AList.update_conv' split: option.splits)
  qed
qed

lemma distinct_fold_calculate_step:
  "distinct (map fst sm) \<Longrightarrow> distinct (map fst (fst (fold (calculate_step ar) items (sm, st))))"
proof (induction items arbitrary: sm st)
  case Nil
  then show ?case by simp
next
  case (Cons item items)
  obtain s stats where item: "item = (s, stats)" by (cases item)
  have one: "distinct (map fst (fst (calculate_step ar (s, stats) (sm, st))))"
    using Cons.prems
    by (simp add: fst_calculate_step AList.distinct_update split: option.splits)
  show ?case
    unfolding item fold_calculate_step_Cons by (rule Cons.IH [OF one])
qed

section \<open>What the Reporter and the Analyzer log\<close>

lemma display_block_shape:
  "\<exists>new. fst ` set new \<subseteq> {INFO} \<and>
     (\<forall>st::('f, 'w) state. display_block item st = st\<lparr>logged := logged st @ new\<rparr>)"
proof -
  obtain s p where item: "item = (s, p)" by (cases item)
  let ?new = "[(INFO, [Str (''Symbol: '' @ s)]),
               (INFO, [Str ''  Open Price: '', Fix2 (Open_Price p)]),
               (INFO, [Str ''  Close Price: '', Fix2 (Close_Price p)]),
               (INFO, [Str ''  Change (%): '', Fix2 (Change p)]),
               (INFO, [Str (replicate 40 CHR ''-'')])]"
  have "\<forall>st::('f, 'w) state. display_block item st = st\<lparr>logged := logged st @ ?new\<rparr>"
    by (simp add: item display_block_def logging_def Let_def)
  moreover have "fst ` set ?new \<subseteq> {INFO}" by simp
  ultimately show ?thesis by (intro exI [of _ ?new] conjI)
qed

lemma fold_display_block_shape:
  "\<exists>new. fst ` set new \<subseteq> {INFO} \<and>
     (\<forall>st::('f, 'w) state. fold display_block sm st = st\<lparr>logged := logged st @ new\<rparr>)"
proof (induction sm)
  case Nil
  have "\<forall>st::('f, 'w) state. fold display_block [] st = st\<lparr>logged := logged st @ []\<rparr>" by simp
  moreover have "fst ` set ([] :: 'f log_record list) \<subseteq> {INFO}" by simp
  ultimately show ?case by (intro exI [of _ "[]"] conjI)
next
  case (Cons item sm)
  from display_block_shape [of item] obtain n1 where
    l1: "fst ` set n1 \<subseteq> {INFO}" and
    b1: "\<And>st::('f, 'w) state. display_block item st = st\<lparr>logged := logged st @ n1\<rparr>"
    by blast
  from Cons.IH obtain n2 where
    l2: "fst ` set n2 \<subseteq> {INFO}" and
    b2: "\<And>st::('f, 'w) state. fold display_block sm st = st\<lparr>logged := logged st @ n2\<rparr>"
    by blast
  have "\<forall>st::('f, 'w) state. fold display_block (item # sm) st = st\<lparr>logged := logged st @ (n1 @ n2)\<rparr>"
    by (simp add: b1 b2)
  moreover have "fst ` set (n1 @ n2) \<subseteq> {INFO}" using l1 l2 by auto
  ultimately show ?case by (intro exI [of _ "n1 @ n2"] conjI)
qed

lemma display_performance_empty:
  "display_performance [] st = st\<lparr>logged := logged st @ [(INFO, [Str ''No performance data to display.''])]\<rparr>"
  by (simp add: display_performance_def logging_def)

lemma display_performance_shape:
  "\<exists>new. fst ` set new \<subseteq> {INFO} \<and>
     (\<forall>st::('f, 'w) state. display_performance sm st = st\<lparr>logged := logged st @ new\<rparr>)"
proof (cases "sm = []")
  case True
  have "\<forall>st::('f, 'w) state. display_performance sm st =
      st\<lparr>logged := logged st @ [(INFO, [Str ''No performance data to display.''])]\<rparr>"
    by (simp add: True display_performance_empty)
  moreover have "fst ` set [(INFO, [Str ''No performance data to display.''])] \<subseteq> {INFO}" by simp
  ultimately show ?thesis
    by (intro exI [of _ "[(INFO, [Str ''No performance data to display.''])]"] conjI)
next
  case False
  from fold_display_block_shape [of sm] obtain n where
    l: "fst ` set n \<subseteq> {INFO}" and
    b: "\<And>st::('f, 'w) state. fold display_block sm st = st\<lparr>logged := logged st @ n\<rparr>"
    by blast
  have "\<forall>st::('f, 'w) state. display_performance sm st =
      st\<lparr>logged := logged st @ ((INFO, [Str ''Displaying performance summary:'']) # n)\<rparr>"
    by (simp add: False display_performance_def logging_def b)
  moreover have "fst ` set ((INFO, [Str ''Displaying performance summary:'']) # n) \<subseteq> {INFO}"
    using l by simp
  ultimately show ?thesis
    by (intro exI [of _ "(INFO, [Str ''Displaying performance summary:'']) # n"] conjI)
qed

lemma snd_calculate_loop:
  "snd (calculate_loop ar st) =
      st\<lparr>logged := logged st @ (INFO, [Str ''Calculating asset performance...'']) #
        [(WARNING, [Str (''Invalid data for '' @ fst item @ ''. Open or Close price is missing.'')]).
           item \<leftarrow> data st, \<not> (truthy ar (snd item ''Open'') \<and> truthy ar (snd item ''Close''))]\<rparr>"
  unfolding calculate_loop_def snd_fold_calculate_step by (simp add: logging_def)

lemma fst_calculate_loop:
  assumes "data st' = data st"
  shows "fst (calculate_loop ar st') = fst (calculate_loop ar st)"
  unfolding calculate_loop_def assms by (rule fst_fold_calculate_step)

lemma calculate_performance_nonempty:
  "data st \<noteq> [] \<Longrightarrow>
     calculate_performance ar st =
       display_performance (fst (calculate_loop ar st)) (snd (calculate_loop ar st))"
  by (simp add: calculate_performance_def case_prod_beta)

lemma calculate_performance_empty:
  "data st = [] \<Longrightarrow>
     calculate_performance ar st =
       st\<lparr>logged := logged st @ [(WARNING, [Str ''No data to calculate performance.''])]\<rparr>"
  by (simp add: calculate_performance_def logging_def)

lemma calculate_performance_shape:
  "\<exists>new. ERROR \<notin> fst ` set new \<and>
     (\<forall>item \<in> set d. \<not> (truthy ar (snd item ''Open'') \<and> truthy ar (snd item ''Close'')) \<longrightarrow>
        (WARNING, [Str (''Invalid data for '' @ fst item @ ''. Open or Close price is missing.'')]) \<in> set new) \<and>
     (\<forall>st::('f, 'w) state. data st = d \<longrightarrow> calculate_performance ar st = st\<lparr>logged := logged st @ new\<rparr>)"
proof (cases "d = []")
  case True
  have "\<forall>st::('f, 'w) state. data st = d \<longrightarrow> calculate_performance ar st =
      st\<lparr>logged := logged st @ [(WARNING, [Str ''No data to calculate performance.''])]\<rparr>"
    by (simp add: True calculate_performance_empty)
  moreover have "ERROR \<notin> fst ` set [(WARNING, [Str ''No data to calculate performance.''])]" by simp
  moreover have "\<forall>item \<in> set d. \<not> (truthy ar (snd item ''Open'') \<and> truthy ar (snd item ''Close'')) \<longrightarrow>
        (WARNING, [Str (''Invalid data for '' @ fst item @ ''. Open or Close price is missing.'')])
          \<in> set [(WARNING, [Str ''No data to calculate performance.''])]"
    by (simp add: True)
  ultimately show ?thesis
    by (intro exI [of _ "[(WARNING, [Str ''No data to calculate performance.''])]"] conjI)
next
  case False
  let ?warn = "[(WARNING, [Str (''Invalid data for '' @ fst item @ ''. Open or Close price is missing.'')]).
           item \<leftarrow> d, \<not> (truthy ar (snd item ''Open'') \<and> truthy ar (snd item ''Close''))]"
  let ?sm = "fst (fold (calculate_step ar) d ([], undefined :: ('f, 'w) state))"
  from display_performance_shape [of ?sm] obtain n where
    l: "fst ` set n \<subseteq> {INFO}" and
    b: "\<And>st::('f, 'w) state. display_performance ?sm st = st\<lparr>logged := logged st @ n\<rparr>"
    by blast
  let ?new = "(INFO, [Str ''Calculating asset performance...'']) # ?warn @ n"
  have run: "calculate_performance ar st = st\<lparr>logged := logged st @ ?new\<rparr>"
    if d: "data st = d" for st :: "('f, 'w) state"
  proof -
    have sm: "fst (calculate_loop ar st) = ?sm"
      unfolding calculate_loop_def d by (rule fst_fold_calculate_step)
    have ne: "data st \<noteq> []" using False d by simp
    show ?thesis
      unfolding calculate_performance_nonempty [OF ne] sm snd_calculate_loop b d
      by simp
  qed
  have "\<forall>st::('f, 'w) state. data st = d \<longrightarrow> calculate_performance ar st = st\<lparr>logged := logged st @ ?new\<rparr>"
    using run by blast
  moreover have "ERROR \<notin> fst ` set ?new" using l by auto
  moreover have "\<forall>item \<in> set d. \<not> (truthy ar (snd item ''Open'') \<and> truthy ar (snd item ''Close'')) \<longrightarrow>
        (WARNING, [Str (''Invalid data for '' @ fst item @ ''. Open or Close price is missing.'')]) \<in> set ?new"
    by auto
  ultimately show ?thesis by (intro exI [of _ ?new] conjI)
qed
section \<open>The loop of the Fetcher\<close>

lemma fetch_loop_keys:
  "fst ` set (data (snd (fetch_loop env syms st))) \<subseteq> fst ` set (data st) \<union> set syms"
proof (induction syms arbitrary: st)
  case Nil
  show ?case by simp
next
  case (Cons symbol rest)
  obtain r w where h: "history env symbol (world st) = (r, w)"
    by (cases "history env symbol (world st)")
  show ?case
  proof (cases r)
    case (Returned hist)
    show ?thesis
    proof (cases "hist = []")
      case True
      from Cons.IH [of "logging WARNING [Str (''No data fetched for '' @ symbol @ ''.'')] (st\<lparr>world := w\<rparr>)"]
      show ?thesis by (auto simp: h Returned True logging_def)
    next
      case False
      from Cons.IH [of "st\<lparr>data := AList.update symbol (last hist) (data st), world := w\<rparr>"]
      show ?thesis by (auto simp: h Returned False AList.dom_update)
    qed
  next
    case (Raised e)
    show ?thesis
    proof (cases e)
      case (Exception msg)
      from Cons.IH [of "logging ERROR [Str (''Error fetching data for '' @ symbol @ '': '' @ msg)] (st\<lparr>world := w\<rparr>)"]
      show ?thesis by (auto simp: h Raised Exception logging_def)
    qed (auto simp: h Raised)
  qed
qed

lemma fetch_loop_distinct:
  "distinct (map fst (data st)) \<Longrightarrow> distinct (map fst (data (snd (fetch_loop env syms st))))"
proof (induction syms arbitrary: st)
  case Nil
  then show ?case by simp
next
  case (Cons symbol rest)
  obtain r w where h: "history env symbol (world st) = (r, w)"
    by (cases "history env symbol (world st)")
  show ?case
  proof (cases r)
    case (Returned hist)
    show ?thesis
    proof (cases "hist = []")
      case True
      from Cons.IH [of "logging WARNING [Str (''No data fetched for '' @ symbol @ ''.'')] (st\<lparr>world := w\<rparr>)"]
        Cons.prems
      show ?thesis by (simp add: h Returned True logging_def)
    next
      case False
      from Cons.IH [of "st\<lparr>data := AList.update symbol (last hist) (data st), world := w\<rparr>"]
        Cons.prems
      show ?thesis by (simp add: h Returned False AList.distinct_update)
    qed
  next
    case (Raised e)
    show ?thesis
    proof (cases e)
      case (Exception msg)
      from Cons.IH [of "logging ERROR [Str (''Error fetching data for '' @ symbol @ '': '' @ msg)] (st\<lparr>world := w\<rparr>)"]
        Cons.prems
      show ?thesis by (simp add: h Raised Exception logging_def)
    qed (use Cons.prems in \<open>simp_all add: h Raised\<close>)
  qed
qed









section \<open>Leaving the driver loop\<close>

lemma while_true_leaves:
  assumes "run_ticks n ar env st = Some st_n" and "tick ar env st_n = (Some e, st')"
  shows "while_true ar env st = Some (e, st')"
  using assms
proof (induction n arbitrary: st)
  case 0
  then have "tick ar env st = (Some e, st')" by simp
  then show ?case by (subst while_true.simps) simp
next
  case (Suc n)
  obtain r st1 where t: "tick ar env st = (r, st1)" by (cases "tick ar env st")
  with Suc.prems(1) have r: "r = None" and rest: "run_ticks n ar env st1 = Some st_n"
    by (cases r; simp)+
  from Suc.IH [OF rest Suc.prems(2)] have "while_true ar env st1 = Some (e, st')" .
  then show ?case by (subst while_true.simps) (simp add: t r)
qed

lemmas run_defs =
  tick_def fetch_asset_data_def logging_def calculate_performance_def calculate_loop_def
  calculate_step_def py_truediv_def display_performance_def display_block_def invalid_data_def exact_def

section \<open>Evaluating the rounding arithmetic\<close>

lemmas rounded_defs =
  rounded_def nearest53_def ilog2_def round_half_even_def halvings.simps doublings.simps
section \<open>The claims\<close>

text \<open>
  C1, as stated, fails: a record whose \<^verbatim>\<open>'Open'\<close> and \<^verbatim>\<open>'Close'\<close> are present, with a
  nonzero open and a close of zero, meets the conditions of the claim, and the Analyzer
  produces no result for its symbol (line 69 tests the truth value of the close too).
\<close>

theorem change_percent_no_result_counterexample:
  "distinct (map fst (data zero_close)) \<and>
   map_of (data zero_close) ''AAPL'' = Some [''Open'' \<mapsto> 150, ''Close'' \<mapsto> 0] \<and>
   float_bool rounded 150 \<and>
   map_of (fst (calculate_loop rounded zero_close)) ''AAPL'' = None"
  by (simp add: zero_close_def rounded_def calculate_loop_def calculate_step_def invalid_data_def)

text \<open>
  C1, amended. For a record of the fetched mapping whose \<^verbatim>\<open>'Open'\<close> and \<^verbatim>\<open>'Close'\<close> are
  present and both nonzero, the Analyzer produces a result for its symbol; the open and
  the close of the result are those of the record, and its change is the value of
  \<^verbatim>\<open>((close - open) / open) * 100\<close> in the arithmetic of Python's floats, whatever that
  arithmetic rounds to: the difference of close and open, divided by open, times the
  float of 100. The summary is the one \<open>calculate_loop\<close> builds, which
  \<^verbatim>\<open>calculate_performance\<close> hands to the Reporter (lemma \<open>calculate_performance_nonempty\<close>).
\<close>

theorem change_percent_exact:
  assumes "distinct (map fst (data st))"
    and "(symbol, stats) \<in> set (data st)"
    and "stats ''Open'' = Some open_price"
    and "stats ''Close'' = Some close_price"
    and "float_bool ar open_price"
    and "float_bool ar close_price"
  shows "map_of (fst (calculate_loop ar st)) symbol =
     Some \<lparr>Open_Price = open_price, Close_Price = close_price,
           Change = float_mul ar
             (float_truediv ar (float_sub ar close_price open_price) open_price)
             (float_of_int ar 100)\<rparr>"
  unfolding calculate_loop_def lookup_fold_calculate_step [OF assms(1,2)] assms(3,4)
  using assms(5,6) by simp

text \<open>
  With the rounding of binary64: scenario 1 of the specification, where open 150 and close
  153 give a change of 2, and a record with open 3 and close 4, where the change is the
  double next to 100/3, which Python prints as 33.33333333333333.
\<close>

theorem change_percent_exact_witness:
  "distinct (map fst (data scenario1)) \<and>
   (''AAPL'', [''Open'' \<mapsto> 150, ''Close'' \<mapsto> 153]) \<in> set (data scenario1) \<and>
   float_bool rounded 150 \<and> float_bool rounded 153 \<and>
   map_of (fst (calculate_loop rounded scenario1)) ''AAPL'' =
     Some \<lparr>Open_Price = 150, Close_Price = 153, Change = 2\<rparr> \<and>
   map_of (fst (calculate_loop rounded one_third)) ''AAPL'' =
     Some \<lparr>Open_Price = 3, Close_Price = 4, Change = 2345624805922133 / 70368744177664\<rparr>"
proof -
  have d: "distinct (map fst (data scenario1))" by (simp add: scenario1_def)
  have m: "(''AAPL'', [''Open'' \<mapsto> 150, ''Close'' \<mapsto> 153]) \<in> set (data scenario1)"
    by (simp add: scenario1_def)
  have p: "[''Open'' \<mapsto> 150, ''Close'' \<mapsto> 153] ''Open'' = Some (150::real)" by simp
  have c: "[''Open'' \<mapsto> 150, ''Close'' \<mapsto> 153] ''Close'' = Some (153::real)" by simp
  have z: "float_bool rounded 150" and z': "float_bool rounded 153"
    by (simp_all add: rounded_def)
  from change_percent_exact [OF d m p c z z']
  have first: "map_of (fst (calculate_loop rounded scenario1)) ''AAPL'' =
     Some \<lparr>Open_Price = 150, Close_Price = 153, Change = 2\<rparr>"
    by (simp add: rounded_defs)
  have d3: "distinct (map fst (data one_third))" by (simp add: one_third_def)
  have m3: "(''AAPL'', [''Open'' \<mapsto> 3, ''Close'' \<mapsto> 4]) \<in> set (data one_third)"
    by (simp add: one_third_def)
  have p3: "[''Open'' \<mapsto> 3, ''Close'' \<mapsto> 4] ''Open'' = Some (3::real)" by simp
  have c3: "[''Open'' \<mapsto> 3, ''Close'' \<mapsto> 4] ''Close'' = Some (4::real)" by simp
  have z3: "float_bool rounded 3" and z4: "float_bool rounded 4"
    by (simp_all add: rounded_def)
  from change_percent_exact [OF d3 m3 p3 c3 z3 z4]
  have second: "map_of (fst (calculate_loop rounded one_third)) ''AAPL'' =
     Some \<lparr>Open_Price = 3, Close_Price = 4, Change = 2345624805922133 / 70368744177664\<rparr>"
    by (simp add: rounded_defs)
  show ?thesis by (intro conjI; fact d m z z' first second)
qed

text \<open>
  C2, as stated, fails: a record with a nonzero open and a close that is present but
  zero gets no result, since line 69 tests the truth value of both prices.
\<close>

theorem result_for_nonzero_open_counterexample:
  "(''AAPL'', [''Open'' \<mapsto> 150, ''Close'' \<mapsto> 0]) \<in> set (data zero_close) \<and>
   [''Open'' \<mapsto> 150, ''Close'' \<mapsto> 0 :: real] ''Open'' = Some 150 \<and>
   [''Open'' \<mapsto> 150, ''Close'' \<mapsto> 0 :: real] ''Close'' = Some 0 \<and>
   truthy exact (Some 150) \<and>
   ''AAPL'' \<notin> fst ` set (fst (calculate_loop exact zero_close))"
  by (simp add: zero_close_def calculate_loop_def calculate_step_def truthy_def exact_def invalid_data_def)

text \<open>
  C2, amended. The Analyzer stores a result for exactly those symbols of the fetched
  mapping whose record has \<^verbatim>\<open>'Open'\<close> and \<^verbatim>\<open>'Close'\<close> both present and both nonzero.
\<close>

theorem results_for_valid_records:
  "fst ` set (fst (calculate_loop ar st)) =
     {symbol. \<exists>stats. (symbol, stats) \<in> set (data st) \<and>
        truthy ar (stats ''Open'') \<and> truthy ar (stats ''Close'')}"
  unfolding calculate_loop_def keys_fold_calculate_step by simp

text \<open>
  Of the four records of \<open>mixed\<close>, only the one of AAPL gets a result.
\<close>

theorem results_for_valid_records_witness:
  "fst ` set (fst (calculate_loop exact mixed)) = {''AAPL''}"
proof -
  have "{symbol. \<exists>stats. (symbol, stats) \<in> set (data mixed) \<and>
        truthy exact (stats ''Open'') \<and> truthy exact (stats ''Close'')} = {''AAPL''}"
    unfolding mixed_def
    by (simp add: truthy_def exact_def conj_disj_distribR ex_disj_distrib Collect_disj_eq)
  with results_for_valid_records [where st = mixed and ar = exact] show ?thesis by simp
qed



text \<open>
  C4, as stated, fails: on an empty fetched mapping the Analyzer returns at line 60
  after its own warning, the Reporter is not called, and its notice is not in the log.
\<close>

theorem empty_fetch_notice_counterexample:
  "data empty_fetch = [] \<and>
   logged (calculate_performance exact empty_fetch) =
     [(WARNING, [Str ''No data to calculate performance.''])] \<and>
   (INFO, [Str ''No performance data to display.'']) \<notin> set (logged (calculate_performance exact empty_fetch))"
  by (simp add: empty_fetch_def calculate_performance_def logging_def)

text \<open>
  C4, amended. When the fetched mapping is empty, the Analyzer logs the single warning
  \<^verbatim>\<open>No data to calculate performance.\<close> and returns, with no output per symbol. The
  notice \<^verbatim>\<open>No performance data to display.\<close> is what the Reporter logs, alone, when it is
  given an empty summary; through the Analyzer that happens when the fetched mapping is
  not empty and every record of it was skipped. Both calls return normally.
\<close>

theorem empty_fetch_warning:
  "(data st = [] \<longrightarrow>
      calculate_performance ar st =
        st\<lparr>logged := logged st @ [(WARNING, [Str ''No data to calculate performance.''])]\<rparr>) \<and>
   display_performance [] st =
     st\<lparr>logged := logged st @ [(INFO, [Str ''No performance data to display.''])]\<rparr> \<and>
   (data st \<noteq> [] \<longrightarrow> fst (calculate_loop ar st) = [] \<longrightarrow>
      (\<exists>new. calculate_performance ar st =
         st\<lparr>logged := logged st @ new @ [(INFO, [Str ''No performance data to display.''])]\<rparr>))"
proof (intro conjI impI)
  assume "data st = []"
  then show "calculate_performance ar st =
        st\<lparr>logged := logged st @ [(WARNING, [Str ''No data to calculate performance.''])]\<rparr>"
    by (rule calculate_performance_empty)
next
  show "display_performance [] st =
     st\<lparr>logged := logged st @ [(INFO, [Str ''No performance data to display.''])]\<rparr>"
    by (rule display_performance_empty)
next
  assume ne: "data st \<noteq> []" and none: "fst (calculate_loop ar st) = []"
  show "\<exists>new. calculate_performance ar st =
         st\<lparr>logged := logged st @ new @ [(INFO, [Str ''No performance data to display.''])]\<rparr>"
    unfolding calculate_performance_nonempty [OF ne] none display_performance_empty snd_calculate_loop
    by (intro exI [of _ "(INFO, [Str ''Calculating asset performance...'']) #
        [(WARNING, [Str (''Invalid data for '' @ fst item @ ''. Open or Close price is missing.'')]).
           item \<leftarrow> data st, \<not> (truthy ar (snd item ''Open'') \<and> truthy ar (snd item ''Close''))]"]) simp
qed

text \<open>
  The empty mapping of scenario 3, and a mapping whose only record is skipped.
\<close>

theorem empty_fetch_warning_witness:
  "data empty_fetch = [] \<and>
   logged (calculate_performance exact empty_fetch) =
     [(WARNING, [Str ''No data to calculate performance.''])] \<and>
   data zero_close \<noteq> [] \<and> fst (calculate_loop exact zero_close) = [] \<and>
   last (logged (calculate_performance exact zero_close)) =
     (INFO, [Str ''No performance data to display.''])"
proof -
  have e: "data empty_fetch = []" by (simp add: empty_fetch_def)
  have l: "logged empty_fetch = []" by (simp add: empty_fetch_def)
  from empty_fetch_warning [where st = empty_fetch and ar = exact] e l
  have first: "logged (calculate_performance exact empty_fetch) =
     [(WARNING, [Str ''No data to calculate performance.''])]"
    by simp
  have ne: "data zero_close \<noteq> []" by (simp add: zero_close_def)
  have none: "fst (calculate_loop exact zero_close) = []"
    by (simp add: zero_close_def calculate_loop_def calculate_step_def exact_def invalid_data_def)
  from empty_fetch_warning [where st = zero_close and ar = exact] ne none obtain new where
    "calculate_performance exact zero_close =
       zero_close\<lparr>logged := logged zero_close @ new @ [(INFO, [Str ''No performance data to display.''])]\<rparr>"
    by blast
  then have second: "last (logged (calculate_performance exact zero_close)) =
     (INFO, [Str ''No performance data to display.''])"
    by simp
  from e first ne none second show ?thesis by simp
qed

text \<open>
  C5. A second call of the Analyzer on the mapping the first call was given builds
  the same summary, and logs the same records again: the call changes nothing it
  reads.
\<close>

theorem analyzer_idempotent:
  "fst (calculate_loop ar (calculate_performance ar st)) = fst (calculate_loop ar st) \<and>
   (\<exists>new. calculate_performance ar st = st\<lparr>logged := logged st @ new\<rparr> \<and>
      calculate_performance ar (calculate_performance ar st) = st\<lparr>logged := logged st @ new @ new\<rparr>)"
proof -
  from calculate_performance_shape [of "data st"] obtain new where
    run: "\<And>st'::('a, 'b) state. data st' = data st \<Longrightarrow>
            calculate_performance ar st' = st'\<lparr>logged := logged st' @ new\<rparr>"
    by blast
  have first: "calculate_performance ar st = st\<lparr>logged := logged st @ new\<rparr>"
    by (rule run) simp
  have same: "data (calculate_performance ar st) = data st"
    by (simp add: first)
  have second: "calculate_performance ar (calculate_performance ar st) =
      st\<lparr>logged := logged st @ new @ new\<rparr>"
    using run [OF same] by (simp add: first)
  have "fst (calculate_loop ar (calculate_performance ar st)) = fst (calculate_loop ar st)"
    using same by (rule fst_calculate_loop)
  with first second show ?thesis by blast
qed

text \<open>After a first call on scenario 1, the Analyzer builds the summary of scenario 1 again.\<close>

theorem analyzer_idempotent_witness:
  "fst (calculate_loop exact (calculate_performance exact scenario1)) =
     [(''AAPL'', \<lparr>Open_Price = 150, Close_Price = 153, Change = 2\<rparr>)]"
proof -
  have "fst (calculate_loop exact scenario1) =
      [(''AAPL'', \<lparr>Open_Price = 150, Close_Price = 153, Change = 2\<rparr>)]"
    by (simp add: scenario1_def calculate_loop_def calculate_step_def exact_def py_truediv_def)
  with analyzer_idempotent [where st = scenario1 and ar = exact] show ?thesis by simp
qed

text \<open>
  C6. The Analyzer never divides by zero. Whatever the fetched mapping, the error record
  of its \<^verbatim>\<open>except\<close> clause is never logged; every record whose open or close is missing
  or zero is skipped with a warning and gets no result; and the division of line 70,
  reached only when both prices are true, has a nonzero divisor and returns.
\<close>

theorem division_by_zero_unreachable:
  assumes "distinct (map fst (data st))"
  shows "\<exists>new. calculate_performance ar st = st\<lparr>logged := logged st @ new\<rparr> \<and>
     ERROR \<notin> fst ` set new \<and>
     (\<forall>(symbol, stats) \<in> set (data st).
        \<not> (truthy ar (stats ''Open'') \<and> truthy ar (stats ''Close'')) \<longrightarrow>
          symbol \<notin> fst ` set (fst (calculate_loop ar st)) \<and>
          (WARNING, [Str (''Invalid data for '' @ symbol @ ''. Open or Close price is missing.'')])
            \<in> set new) \<and>
     (\<forall>(symbol, stats) \<in> set (data st). \<forall>p c.
        stats ''Open'' = Some p \<and> stats ''Close'' = Some c \<and> truthy ar (Some p) \<and> truthy ar (Some c) \<longrightarrow>
          py_truediv ar (float_sub ar c p) p = Inr (float_truediv ar (float_sub ar c p) p))"
proof -
  from calculate_performance_shape [of "data st"] obtain new where
    lvl: "ERROR \<notin> fst ` set new" and
    warn: "\<And>item. item \<in> set (data st) \<Longrightarrow>
        \<not> (truthy ar (snd item ''Open'') \<and> truthy ar (snd item ''Close'')) \<Longrightarrow>
        (WARNING, [Str (''Invalid data for '' @ fst item @ ''. Open or Close price is missing.'')])
          \<in> set new" and
    run: "\<And>st'::('a, 'b) state. data st' = data st \<Longrightarrow>
            calculate_performance ar st' = st'\<lparr>logged := logged st' @ new\<rparr>"
    by blast
  have first: "calculate_performance ar st = st\<lparr>logged := logged st @ new\<rparr>"
    by (rule run) simp
  have keys: "fst ` set (fst (calculate_loop ar st)) =
     {s. \<exists>stats. (s, stats) \<in> set (data st) \<and> truthy ar (stats ''Open'') \<and> truthy ar (stats ''Close'')}"
    unfolding calculate_loop_def keys_fold_calculate_step by simp
  have skipped: "symbol \<notin> fst ` set (fst (calculate_loop ar st)) \<and>
      (WARNING, [Str (''Invalid data for '' @ symbol @ ''. Open or Close price is missing.'')]) \<in> set new"
    if mem: "(symbol, stats) \<in> set (data st)"
      and bad: "\<not> (truthy ar (stats ''Open'') \<and> truthy ar (stats ''Close''))" for symbol stats
  proof
    show "symbol \<notin> fst ` set (fst (calculate_loop ar st))"
    proof
      assume "symbol \<in> fst ` set (fst (calculate_loop ar st))"
      then obtain stats' where mem': "(symbol, stats') \<in> set (data st)"
        and good: "truthy ar (stats' ''Open'') \<and> truthy ar (stats' ''Close'')"
        unfolding keys by blast
      from eq_key_imp_eq_value [OF assms mem mem'] have "stats = stats'" .
      with bad good show False by simp
    qed
    show "(WARNING, [Str (''Invalid data for '' @ symbol @ ''. Open or Close price is missing.'')]) \<in> set new"
      using warn [OF mem] bad by simp
  qed
  have divisor: "py_truediv ar (float_sub ar c p) p = Inr (float_truediv ar (float_sub ar c p) p)"
    if "truthy ar (Some p)" for p c
    using that by (simp add: py_truediv_def truthy_def)
  show ?thesis
    using first lvl skipped divisor by (intro exI [of _ new]) blast
qed

text \<open>
  Scenario 2: TSLA, with an open of zero, gets a warning and no result.
\<close>

theorem division_by_zero_unreachable_witness:
  "distinct (map fst (data mixed)) \<and>
   ''TSLA'' \<notin> fst ` set (fst (calculate_loop exact mixed)) \<and>
   (WARNING, [Str ''Invalid data for TSLA. Open or Close price is missing.''])
     \<in> set (logged (calculate_performance exact mixed)) \<and>
   ERROR \<notin> fst ` set (logged (calculate_performance exact mixed))"
proof -
  have d: "distinct (map fst (data mixed))" by (simp add: mixed_def)
  have l: "logged mixed = []" by (simp add: mixed_def)
  have m: "(''TSLA'', [''Open'' \<mapsto> 0, ''Close'' \<mapsto> 200]) \<in> set (data mixed)"
    by (simp add: mixed_def)
  have z: "\<not> (truthy exact ([''Open'' \<mapsto> 0, ''Close'' \<mapsto> 200 :: real] ''Open'') \<and>
              truthy exact ([''Open'' \<mapsto> 0, ''Close'' \<mapsto> 200 :: real] ''Close''))"
    by (simp add: truthy_def exact_def)
  from division_by_zero_unreachable [OF d] obtain new where
    run: "calculate_performance exact mixed = mixed\<lparr>logged := logged mixed @ new\<rparr>" and
    lvl: "ERROR \<notin> fst ` set new" and
    skip: "\<forall>(symbol, stats) \<in> set (data mixed).
        \<not> (truthy exact (stats ''Open'') \<and> truthy exact (stats ''Close'')) \<longrightarrow>
          symbol \<notin> fst ` set (fst (calculate_loop exact mixed)) \<and>
          (WARNING, [Str (''Invalid data for '' @ symbol @ ''. Open or Close price is missing.'')])
            \<in> set new"
    by blast
  have new: "logged (calculate_performance exact mixed) = new" by (simp add: run l)
  from bspec [OF skip m] z
  have "''TSLA'' \<notin> fst ` set (fst (calculate_loop exact mixed)) \<and>
     (WARNING, [Str ''Invalid data for TSLA. Open or Close price is missing.'']) \<in> set new"
    by simp
  with d lvl new show ?thesis by simp
qed



text \<open>
  C8, as stated, fails: an \<^verbatim>\<open>Exception\<close> that reaches the top of a pass is caught at
  line 111, \<^verbatim>\<open>track_assets\<close> returns normally and the exit status is 0.
\<close>

theorem fatal_exit_status_counterexample:
  "main exact failing_sleep () =
     Some (0, \<lparr>symbols = [''AAPL'', ''TSLA'', ''GOOGL''], data = [],
         logged =
           [(INFO, [Str ''Starting asset tracking...'']),
            (INFO, [Str ''Fetching asset data...'']),
            (WARNING, [Str ''No data fetched for AAPL.'']),
            (WARNING, [Str ''No data fetched for TSLA.'']),
            (WARNING, [Str ''No data fetched for GOOGL.'']),
            (WARNING, [Str ''No data to calculate performance.'']),
            (INFO, [Str ''Waiting for the next update cycle...'']),
            (ERROR, [Str ''An unexpected error occurred: boom''])],
         world = ()\<rparr>)"
  unfolding main_def track_assets_def
  by (subst while_true.simps) (simp add: run_defs failing_sleep_def exit_status_def)

text \<open>
  C8, amended. When a pass through the loop is left by an \<^verbatim>\<open>Exception\<close>, after any
  number of passes that raised nothing, it is logged at level ERROR as
  \<^verbatim>\<open>An unexpected error occurred: ..\<close>, the loop has ended and no further pass runs (the
  state is otherwise the one at the exception), and the exit status is 0.
\<close>

theorem unexpected_error_stops:
  assumes "run_ticks n ar env (logging INFO [Str ''Starting asset tracking...''] st) = Some st_n"
    and "tick ar env st_n = (Some (Exception msg), st')"
  shows "track_assets ar env st =
      Some (None, st'\<lparr>logged := logged st' @
        [(ERROR, [Str (''An unexpected error occurred: '' @ msg)])]\<rparr>) \<and>
    map_option (exit_status \<circ> fst) (track_assets ar env st) = Some 0"
  using while_true_leaves [OF assms]
  by (simp add: track_assets_def logging_def exit_status_def)

text \<open>The first sleep raises: the error is the last record of the log, and the exit status is 0.\<close>

theorem unexpected_error_stops_witness:
  "map_option (exit_status \<circ> fst) (track_assets exact failing_sleep empty_fetch) = Some 0 \<and>
   map_option (last \<circ> logged \<circ> snd) (track_assets exact failing_sleep empty_fetch) =
     Some (ERROR, [Str ''An unexpected error occurred: boom''])"
proof -
  let ?start = "logging INFO [Str ''Starting asset tracking...''] empty_fetch"
  let ?st1 = "snd (tick exact failing_sleep ?start)"
  have r: "run_ticks 0 exact failing_sleep ?start = Some ?start" by simp
  have f: "fst (tick exact failing_sleep ?start) = Some (Exception ''boom'')"
    by (simp add: run_defs failing_sleep_def empty_fetch_def)
  have t: "tick exact failing_sleep ?start = (Some (Exception ''boom''), ?st1)"
    by (rule prod_eqI) (simp_all only: f fst_conv snd_conv)
  from unexpected_error_stops [OF r t]
  have eq: "track_assets exact failing_sleep empty_fetch =
      Some (None, ?st1\<lparr>logged := logged ?st1 @
        [(ERROR, [Str (''An unexpected error occurred: '' @ ''boom'')])]\<rparr>)"
    by (rule conjunct1)
  show ?thesis unfolding eq by (simp add: exit_status_def)
qed

text \<open>
  C9. \<^verbatim>\<open>calculate_performance\<close> and \<^verbatim>\<open>display_performance\<close> leave \<^verbatim>\<open>self.symbols\<close>, the
  fetched mapping with every record in it, and the world outside as they were; they
  only append to the log.
\<close>

theorem analyzer_reporter_frame:
  "symbols (calculate_performance ar st) = symbols st \<and>
   data (calculate_performance ar st) = data st \<and>
   world (calculate_performance ar st) = world st \<and>
   (\<exists>new. logged (calculate_performance ar st) = logged st @ new) \<and>
   symbols (display_performance performance_summary st) = symbols st \<and>
   data (display_performance performance_summary st) = data st \<and>
   world (display_performance performance_summary st) = world st \<and>
   (\<exists>new. logged (display_performance performance_summary st) = logged st @ new)"
proof -
  from calculate_performance_shape [of "data st"] obtain n1 where
    "\<And>st'::('a, 'b) state. data st' = data st \<Longrightarrow>
            calculate_performance ar st' = st'\<lparr>logged := logged st' @ n1\<rparr>"
    by blast
  then have c: "calculate_performance ar st = st\<lparr>logged := logged st @ n1\<rparr>" by simp
  from display_performance_shape [of performance_summary] obtain n2 where
    d: "\<And>st::('a, 'b) state. display_performance performance_summary st = st\<lparr>logged := logged st @ n2\<rparr>"
    by blast
  show ?thesis unfolding c d by simp
qed

text \<open>The four symbols and the four records of \<open>mixed\<close> are there after the call.\<close>

theorem analyzer_reporter_frame_witness:
  "symbols (calculate_performance exact mixed) = [''AAPL'', ''TSLA'', ''GOOGL'', ''MSFT''] \<and>
   data (calculate_performance exact mixed) = data mixed"
  using analyzer_reporter_frame [where st = mixed and ar = exact] by (simp add: mixed_def)

text \<open>
  C10. The symbols of the summary are among the keys of the fetched mapping, and the
  symbols of the mapping \<^verbatim>\<open>fetch_asset_data\<close> builds are among \<^verbatim>\<open>self.symbols\<close>; in both,
  no symbol appears twice.
\<close>

theorem symbols_within_inputs:
  fixes env :: "('f, 'w) env" and st :: "('f, 'w) state"
  shows "fst ` set (fst (calculate_loop ar st)) \<subseteq> fst ` set (data st) \<and>
   distinct (map fst (fst (calculate_loop ar st))) \<and>
   fst ` set (data (snd (fetch_asset_data env st))) \<subseteq> set (symbols st) \<and>
   distinct (map fst (data (snd (fetch_asset_data env st))))"
proof (intro conjI)
  show "fst ` set (fst (calculate_loop ar st)) \<subseteq> fst ` set (data st)"
    unfolding calculate_loop_def keys_fold_calculate_step by force
  show "distinct (map fst (fst (calculate_loop ar st)))"
    unfolding calculate_loop_def by (rule distinct_fold_calculate_step) simp
  let ?st = "logging INFO [Str ''Fetching asset data...''] (st\<lparr>data := []\<rparr>)"
  have s: "symbols ?st = symbols st" and d: "data ?st = []"
    by (simp_all add: logging_def)
  from fetch_loop_keys [of env "symbols st" ?st]
  show "fst ` set (data (snd (fetch_asset_data env st))) \<subseteq> set (symbols st)"
    by (simp add: fetch_asset_data_def d)
  from fetch_loop_distinct [of ?st env "symbols st"]
  show "distinct (map fst (data (snd (fetch_asset_data env st))))"
    by (simp add: fetch_asset_data_def d)
qed

text \<open>The three symbols of \<open>tracker\<close> bound what is fetched; nothing fetched, nothing summarised.\<close>

theorem symbols_within_inputs_witness:
  "fst ` set (data (snd (fetch_asset_data provider tracker))) \<subseteq> {''AAPL'', ''TSLA'', ''GOOGL''} \<and>
   fst ` set (fst (calculate_loop exact tracker)) \<subseteq> {}"
  using symbols_within_inputs [where st = tracker and env = provider and ar = exact] by (simp add: tracker_def)


end
